theory Spec2Isabelle
  imports Main
begin

section \<open>JSON values as Python sees them\<close>

text \<open>
  The tools of \<^verbatim>\<open>agent_tools.py\<close> and \<^verbatim>\<open>google_calendar.py\<close> work on the
  values that \<^verbatim>\<open>json.load\<close> returns and \<^verbatim>\<open>json.dump\<close> accepts. A Python dict keeps
  its insertion order, so an object is an association list; \<open>map_of\<close> is the lookup.
  Strings are byte lists: a character outside ASCII is its UTF-8 encoding. Numbers are
  integers.
\<close>

datatype json =
    JNull
  | JBool bool
  | JNum int
  | JStr string
  | JArr "json list"
  | JObj "(string \<times> json) list"

type_synonym dict = "(string \<times> json) list"

text \<open>The exceptions that the tools raise or let through.\<close>

datatype py_exn =
    KeyError string
  | TypeError
  | AttributeError
  | ValueError string
  | FileNotFoundError string
  | ExternalError string

text \<open>\<^verbatim>\<open>x[key]\<close> with a string key: only a dict can answer it.\<close>

fun py_getitem :: "json \<Rightarrow> string \<Rightarrow> py_exn + json" where
  "py_getitem (JObj kvs) k = (case map_of kvs k of None \<Rightarrow> Inl (KeyError k) | Some v \<Rightarrow> Inr v)"
| "py_getitem _ k = Inl TypeError"

text \<open>\<^verbatim>\<open>x.get(key, default)\<close>: a method of dict only.\<close>

fun py_get :: "json \<Rightarrow> string \<Rightarrow> json \<Rightarrow> py_exn + json" where
  "py_get (JObj kvs) k d = Inr (case map_of kvs k of None \<Rightarrow> d | Some v \<Rightarrow> v)"
| "py_get _ k d = Inl AttributeError"

text \<open>
  \<^verbatim>\<open>for item in x\<close>: the items a loop over \<open>x\<close> visits. A list gives its
  elements, a dict its keys, a string its characters (here one item per byte); nothing
  else can be iterated.
\<close>

fun py_iter :: "json \<Rightarrow> py_exn + json list" where
  "py_iter (JArr xs) = Inr xs"
| "py_iter (JStr s) = Inr (map (\<lambda>c. JStr [c]) s)"
| "py_iter (JObj kvs) = Inr (map (\<lambda>kv. JStr (fst kv)) kvs)"
| "py_iter _ = Inl TypeError"

text \<open>The truth value that \<^verbatim>\<open>not x\<close> negates.\<close>

fun py_truthy :: "json \<Rightarrow> bool" where
  "py_truthy JNull = False"
| "py_truthy (JBool b) = b"
| "py_truthy (JNum n) = (n \<noteq> 0)"
| "py_truthy (JStr s) = (s \<noteq> [])"
| "py_truthy (JArr xs) = (xs \<noteq> [])"
| "py_truthy (JObj kvs) = (kvs \<noteq> [])"

text \<open>
  Sequencing of steps that may raise: the first exception ends the evaluation, as it ends
  the evaluation of a Python expression.
\<close>

fun and_then :: "'e + 'a \<Rightarrow> ('a \<Rightarrow> 'e + 'b) \<Rightarrow> 'e + 'b" where
  "and_then (Inl e) f = Inl e"
| "and_then (Inr v) f = f v"

section \<open>The world the tools act on\<close>

text \<open>
  \<^verbatim>\<open>print\<close> appends a line to standard output; the two formatted lines of the source
  are kept as structured values (the exception and the item of the warning, the link of
  the creation notice).
\<close>

datatype printed =
    Missing_required_field py_exn json
  | Successfully_created json

text \<open>
  \<open>plan_json\<close> is the file \<^verbatim>\<open>plan.json\<close>: \<open>None\<close> when it does not exist, otherwise
  the document that \<^verbatim>\<open>json.load\<close> reads from it. \<open>calendar\<close> lists the event bodies
  the calendar service has accepted, oldest first.
\<close>

record world =
  plan_json :: "json option"
  stdout :: "printed list"
  calendar :: "json list"

text \<open>
  The Google client is outside the repository. \<open>build_service\<close> stands for lines 15 to
  24 of \<^verbatim>\<open>google_calendar.py\<close> (credentials and \<^verbatim>\<open>build\<close>): \<open>Some e\<close> when they raise
  \<open>e\<close>. \<open>events_insert\<close> is \<^verbatim>\<open>service.events().insert(...).execute()\<close>: given the
  calendar so far and the body, the created event or an exception.
\<close>

record google_api =
  build_service :: "py_exn option"
  events_insert :: "json list \<Rightarrow> json \<Rightarrow> py_exn + dict"

text \<open>
  The string literals of the source. The check mark (U+2705) and the cross mark (U+274C)
  in front of them are their UTF-8 bytes.
\<close>

definition CHECK_MARK :: string where
  "CHECK_MARK = [CHR 0xE2, CHR 0x9C, CHR 0x85]"

definition CROSS_MARK :: string where
  "CROSS_MARK = [CHR 0xE2, CHR 0x9D, CHR 0x8C]"

definition JSON_SAVED :: string where
  "JSON_SAVED = CHECK_MARK @ '' JSON SAVED''"

definition NO_VALID_EVENTS :: string where
  "NO_VALID_EVENTS = CROSS_MARK @ '' No valid events to save.''"

definition PLAN_NOT_FOUND :: string where
  "PLAN_NOT_FOUND = CROSS_MARK @ '' plan.json file not found.''"

definition PLAN_SYNCED :: string where
  "PLAN_SYNCED = CHECK_MARK @ '' Study plan synced to Google Calendar.''"

definition CALENDAR_SYNCED :: string where
  "CALENDAR_SYNCED = CHECK_MARK @ '' Study plan has been synced to Google Calendar.''"

section \<open>save_schedule_json\<close>

text \<open>
  The dict display of lines 10 to 21, evaluated left to right: \<^verbatim>\<open>item["summary"]\<close>,
  \<^verbatim>\<open>item["start"]\<close>, \<^verbatim>\<open>item.get("timeZone", ...)\<close>, \<^verbatim>\<open>item["end"]\<close>,
  \<^verbatim>\<open>item.get("timeZone", ...)\<close>, \<^verbatim>\<open>item.get("description", "")\<close>.
\<close>

definition DEFAULT_TIMEZONE :: json where
  "DEFAULT_TIMEZONE = JStr ''Asia/Ho_Chi_Minh''"

definition event_of_item :: "json \<Rightarrow> py_exn + json" where
  "event_of_item item =
    and_then (py_getitem item ''summary'') (\<lambda>summary.
    and_then (py_getitem item ''start'') (\<lambda>start.
    and_then (py_get item ''timeZone'' DEFAULT_TIMEZONE) (\<lambda>start_tz.
    and_then (py_getitem item ''end'') (\<lambda>finish.
    and_then (py_get item ''timeZone'' DEFAULT_TIMEZONE) (\<lambda>finish_tz.
    and_then (py_get item ''description'' (JStr [])) (\<lambda>description.
      Inr (JObj [(''summary'', summary),
                 (''start'', JObj [(''dateTime'', start), (''timeZone'', start_tz)]),
                 (''end'', JObj [(''dateTime'', finish), (''timeZone'', finish_tz)]),
                 (''description'', description)])))))))"

text \<open>
  The loop of lines 8 to 24 over the items still to visit, with \<open>valid_events\<close> and the
  standard output so far. A \<^verbatim>\<open>KeyError\<close> is caught and printed; any other exception
  leaves the function.
\<close>

fun collect_events :: "json list \<Rightarrow> json list \<Rightarrow> printed list \<Rightarrow> (py_exn + json list) \<times> printed list" where
  "collect_events [] valid_events out = (Inr valid_events, out)"
| "collect_events (item # items) valid_events out =
    (case event_of_item item of
       Inr event \<Rightarrow> collect_events items (valid_events @ [event]) out
     | Inl (KeyError k) \<Rightarrow>
         collect_events items valid_events (out @ [Missing_required_field (KeyError k) item])
     | Inl e \<Rightarrow> (Inl e, out))"

definition save_schedule_json :: "dict \<Rightarrow> world \<Rightarrow> (py_exn + string) \<times> world" where
  "save_schedule_json json_data w =
    (case py_iter (case map_of json_data ''events'' of None \<Rightarrow> JArr [] | Some v \<Rightarrow> v) of
       Inl e \<Rightarrow> (Inl e, w)
     | Inr items \<Rightarrow>
        (case collect_events items [] (stdout w) of
           (Inl e, out) \<Rightarrow> (Inl e, w\<lparr>stdout := out\<rparr>)
         | (Inr valid_events, out) \<Rightarrow>
             if valid_events = [] then (Inr NO_VALID_EVENTS, w\<lparr>stdout := out\<rparr>)
             else (Inr JSON_SAVED,
                   w\<lparr>plan_json := Some (JObj [(''events'', JArr valid_events)]), stdout := out\<rparr>)))"

section \<open>create_events_from_plan and load_schedule_json\<close>

text \<open>The dict display of lines 27 to 38 of \<^verbatim>\<open>google_calendar.py\<close>, left to right.\<close>

definition calendar_event :: "json \<Rightarrow> py_exn + json" where
  "calendar_event event_data =
    and_then (py_get event_data ''summary'' (JStr ''Study Schedule'')) (\<lambda>summary.
    and_then (py_get event_data ''description'' (JStr [])) (\<lambda>description.
    and_then (py_getitem event_data ''start'') (\<lambda>start.
    and_then (py_getitem start ''dateTime'') (\<lambda>start_dt.
    and_then (py_getitem event_data ''start'') (\<lambda>start'.
    and_then (py_getitem start' ''timeZone'') (\<lambda>start_tz.
    and_then (py_getitem event_data ''end'') (\<lambda>finish.
    and_then (py_getitem finish ''dateTime'') (\<lambda>finish_dt.
    and_then (py_getitem event_data ''end'') (\<lambda>finish'.
    and_then (py_getitem finish' ''timeZone'') (\<lambda>finish_tz.
      Inr (JObj [(''summary'', summary),
                 (''description'', description),
                 (''start'', JObj [(''dateTime'', start_dt), (''timeZone'', start_tz)]),
                 (''end'', JObj [(''dateTime'', finish_dt), (''timeZone'', finish_tz)])])))))))))))"

text \<open>
  The loop of lines 26 to 41: one insertion per event, in order; the first exception
  leaves the loop, and what was created before it stays created.
\<close>

fun insert_events :: "google_api \<Rightarrow> json list \<Rightarrow> world \<Rightarrow> py_exn option \<times> world" where
  "insert_events api [] w = (None, w)"
| "insert_events api (event_data # rest) w =
    (case calendar_event event_data of
       Inl e \<Rightarrow> (Some e, w)
     | Inr event \<Rightarrow>
        (case events_insert api (calendar w) event of
           Inl e \<Rightarrow> (Some e, w)
         | Inr created_event \<Rightarrow>
             insert_events api rest
               (w\<lparr>calendar := calendar w @ [event],
                  stdout := stdout w @
                    [Successfully_created
                      (case map_of created_event ''htmlLink'' of None \<Rightarrow> JNull | Some l \<Rightarrow> l)]\<rparr>)))"

definition create_events_from_plan :: "google_api \<Rightarrow> json \<Rightarrow> world \<Rightarrow> (py_exn + string) \<times> world" where
  "create_events_from_plan api plan w =
    (case py_get plan ''events'' JNull of
       Inl e \<Rightarrow> (Inl e, w)
     | Inr evs \<Rightarrow>
        if \<not> py_truthy evs then (Inl (ValueError ''No events found in the study plan.''), w)
        else
          (case build_service api of
             Some e \<Rightarrow> (Inl e, w)
           | None \<Rightarrow>
              (case py_getitem plan ''events'' of
                 Inl e \<Rightarrow> (Inl e, w)
               | Inr events \<Rightarrow>
                  (case py_iter events of
                     Inl e \<Rightarrow> (Inl e, w)
                   | Inr items \<Rightarrow>
                      (case insert_events api items w of
                         (Some e, w') \<Rightarrow> (Inl e, w')
                       | (None, w') \<Rightarrow> (Inr CALENDAR_SYNCED, w'))))))"

definition load_schedule_json :: "google_api \<Rightarrow> world \<Rightarrow> (py_exn + string) \<times> world" where
  "load_schedule_json api w =
    (case plan_json w of
       None \<Rightarrow> (Inl (FileNotFoundError PLAN_NOT_FOUND), w)
     | Some data \<Rightarrow>
        (case create_events_from_plan api data w of
           (Inl e, w') \<Rightarrow> (Inl e, w')
         | (Inr r, w') \<Rightarrow> (Inr PLAN_SYNCED, w')))"

section \<open>StudyPlanningTeam: the conversation loop\<close>

text \<open>
  \<^verbatim>\<open>self.team.run_stream(...)\<close> is an asynchronous generator of the third-party
  \<^verbatim>\<open>SelectorGroupChat\<close>: it yields messages and then either stops or raises. What it
  raises is a \<open>raised\<close>: an instance of \<^verbatim>\<open>Exception\<close>, which the handlers of
  \<^verbatim>\<open>study_planning_team.py\<close> catch, or of \<^verbatim>\<open>BaseException\<close> alone (a cancellation, an
  interrupt), which they do not; the string is \<^verbatim>\<open>str(e)\<close>.
\<close>

datatype raised = Exception string | BaseException string

text \<open>
  A message is read with \<^verbatim>\<open>getattr(message, "name", ...)\<close> and
  \<^verbatim>\<open>getattr(message, "content", ...)\<close>: either attribute may be absent. The content is
  taken to be text.
\<close>

datatype message = Message (name: "string option") (content: "string option")

datatype stream = Stop | Yield message stream | Raise raised

datatype task = Text string | TextMessage string string

text \<open>The dict appended to \<^verbatim>\<open>self.conversation_history\<close>; \<open>now\<close> is
  \<^verbatim>\<open>datetime.now().isoformat()\<close>.\<close>

definition history_entry :: "message \<Rightarrow> string \<Rightarrow> dict" where
  "history_entry message now =
    [(''agent'', JStr (case name message of None \<Rightarrow> ''Unknown'' | Some n \<Rightarrow> n)),
     (''content'', JStr (case content message of None \<Rightarrow> [] | Some c \<Rightarrow> c)),
     (''timestamp'', JStr now),
     (''type'', JStr ''message'')]"

text \<open>
  The \<^verbatim>\<open>async for\<close> of \<^verbatim>\<open>run_conversation\<close> (lines 118 to 127). The history starts
  empty and grows by one entry per message, so the clock is read for the \<open>i\<close>-th time
  when the history has \<open>i\<close> entries: \<open>clock i\<close> is that reading. The result is the
  exception that ended the loop, if any, with the history at that moment.
\<close>

fun append_messages :: "(nat \<Rightarrow> string) \<Rightarrow> stream \<Rightarrow> dict list \<Rightarrow> raised option \<times> dict list" where
  "append_messages clock Stop history = (None, history)"
| "append_messages clock (Raise e) history = (Some e, history)"
| "append_messages clock (Yield message rest) history =
    append_messages clock rest (history @ [history_entry message (clock (length history))])"

text \<open>The dict returned at the end of the \<^verbatim>\<open>try\<close> block; \<open>success\<close> is the extra
  first key of \<^verbatim>\<open>run_conversation_with_socket\<close>.\<close>

definition completed :: "dict \<Rightarrow> dict list \<Rightarrow> dict" where
  "completed success history =
    success @
    [(''conversation_history'', JArr (map JObj history)),
     (''final_message'', if history \<noteq> [] then JObj (last history) else JNull),
     (''total_messages'', JNum (int (length history)))]"

text \<open>The dict returned by the \<^verbatim>\<open>except Exception\<close> handlers.\<close>

definition failed :: "string \<Rightarrow> dict list \<Rightarrow> dict" where
  "failed msg history = [(''error'', JStr msg), (''conversation_history'', JArr (map JObj history))]"

text \<open>\<open>Inr\<close> is the returned dict, \<open>Inl\<close> an exception that leaves the method.\<close>

definition run_conversation :: "(task \<Rightarrow> stream) \<Rightarrow> (nat \<Rightarrow> string) \<Rightarrow> string \<Rightarrow> raised + dict" where
  "run_conversation run_stream clock user_message =
    (case append_messages clock (run_stream (Text user_message)) [] of
       (None, history) \<Rightarrow> Inr (completed [] history)
     | (Some (Exception msg), history) \<Rightarrow> Inr (failed msg history)
     | (Some (BaseException msg), history) \<Rightarrow> Inl (BaseException msg))"

section \<open>StudyPlanningTeam: the conversation loop with a Socket.IO sink\<close>

text \<open>
  One call \<^verbatim>\<open>socketio_service.sio.emit(event, payload, room=...)\<close>. The sink is outside
  the repository: \<open>'s\<close> is its state, and an emit either raises or leaves a new state.
  \<^verbatim>\<open>socketio_service\<close> is \<open>None\<close> or such an emit function.
\<close>

datatype emitted = Emit string dict string

type_synonym 's sio_emit = "'s \<Rightarrow> emitted \<Rightarrow> raised + 's"

definition stream_payload :: "string \<Rightarrow> string \<Rightarrow> message \<Rightarrow> emitted" where
  "stream_payload user_sid task_id message =
    Emit ''task_message''
      [(''task_id'', JStr task_id),
       (''type'', JStr ''stream''),
       (''data'', JObj [(''message'', JStr (case content message of None \<Rightarrow> [] | Some c \<Rightarrow> c)),
                       (''agent'', JStr (case name message of None \<Rightarrow> ''system'' | Some n \<Rightarrow> n))])]
      user_sid"

definition complete_payload :: "string \<Rightarrow> string \<Rightarrow> emitted" where
  "complete_payload user_sid task_id =
    Emit ''task_message''
      [(''task_id'', JStr task_id),
       (''type'', JStr ''complete''),
       (''data'', JObj [(''message'', JStr ''Study planning conversation completed'')])]
      user_sid"

definition error_payload :: "string \<Rightarrow> string \<Rightarrow> string \<Rightarrow> emitted" where
  "error_payload user_sid task_id msg =
    Emit ''task_message''
      [(''task_id'', JStr task_id),
       (''type'', JStr ''error''),
       (''data'', JObj [(''message'', JStr (''Error in conversation: '' @ msg))])]
      user_sid"

text \<open>The \<^verbatim>\<open>async for\<close> of lines 152 to 170: append, then emit when there is a sink and
  the message has a content.\<close>

fun stream_messages ::
  "'s sio_emit option \<Rightarrow> (nat \<Rightarrow> string) \<Rightarrow> string \<Rightarrow> string \<Rightarrow> stream \<Rightarrow> dict list \<Rightarrow> 's
    \<Rightarrow> raised option \<times> dict list \<times> 's" where
  "stream_messages socketio_service clock user_sid task_id Stop history q = (None, history, q)"
| "stream_messages socketio_service clock user_sid task_id (Raise e) history q = (Some e, history, q)"
| "stream_messages socketio_service clock user_sid task_id (Yield message rest) history q =
    (let history' = history @ [history_entry message (clock (length history))] in
     case socketio_service of
       None \<Rightarrow> stream_messages socketio_service clock user_sid task_id rest history' q
     | Some emit \<Rightarrow>
         if content message \<noteq> None then
           (case emit q (stream_payload user_sid task_id message) of
              Inl e \<Rightarrow> (Some e, history', q)
            | Inr q' \<Rightarrow> stream_messages socketio_service clock user_sid task_id rest history' q')
         else stream_messages socketio_service clock user_sid task_id rest history' q)"

text \<open>The \<^verbatim>\<open>try\<close> block (lines 149 to 186): the loop, then the completion notice.\<close>

definition try_conversation ::
  "(task \<Rightarrow> stream) \<Rightarrow> (nat \<Rightarrow> string) \<Rightarrow> string \<Rightarrow> string \<Rightarrow> string \<Rightarrow> 's sio_emit option \<Rightarrow> 's
    \<Rightarrow> raised option \<times> dict list \<times> 's" where
  "try_conversation run_stream clock user_message user_sid task_id socketio_service q =
    (case stream_messages socketio_service clock user_sid task_id
            (run_stream (TextMessage user_message ''User'')) [] q of
       (Some e, history, q') \<Rightarrow> (Some e, history, q')
     | (None, history, q') \<Rightarrow>
        (case socketio_service of
           None \<Rightarrow> (None, history, q')
         | Some emit \<Rightarrow>
            (case emit q' (complete_payload user_sid task_id) of
               Inl e \<Rightarrow> (Some e, history, q')
             | Inr q'' \<Rightarrow> (None, history, q''))))"

text \<open>
  The whole method with its handler (lines 187 to 201). The call of \<^verbatim>\<open>logging.error\<close>
  is not modelled. An exception of the error notice is raised inside the handler, so it
  leaves the method.
\<close>

definition run_conversation_with_socket ::
  "(task \<Rightarrow> stream) \<Rightarrow> (nat \<Rightarrow> string) \<Rightarrow> string \<Rightarrow> string \<Rightarrow> string \<Rightarrow> 's sio_emit option \<Rightarrow> 's
    \<Rightarrow> (raised + dict) \<times> 's" where
  "run_conversation_with_socket run_stream clock user_message user_sid task_id socketio_service q =
    (case try_conversation run_stream clock user_message user_sid task_id socketio_service q of
       (None, history, q') \<Rightarrow> (Inr (completed [(''success'', JBool True)] history), q')
     | (Some (BaseException msg), history, q') \<Rightarrow> (Inl (BaseException msg), q')
     | (Some (Exception msg), history, q') \<Rightarrow>
        (case socketio_service of
           None \<Rightarrow> (Inr (failed msg history), q')
         | Some emit \<Rightarrow>
            (case emit q' (error_payload user_sid task_id msg) of
               Inl e \<Rightarrow> (Inl e, q')
             | Inr q'' \<Rightarrow> (Inr (failed msg history), q''))))"

section \<open>Describing what the tools do to a plan of records\<close>

text \<open>
  The statements below speak about plans whose \<^verbatim>\<open>events\<close> are records (dicts). A record
  passes the loop of \<^verbatim>\<open>save_schedule_json\<close> when the three subscripted keys are there.
\<close>

definition has_required_fields :: "dict \<Rightarrow> bool" where
  "has_required_fields item =
    (map_of item ''summary'' \<noteq> None \<and> map_of item ''start'' \<noteq> None \<and> map_of item ''end'' \<noteq> None)"

definition field_or :: "dict \<Rightarrow> string \<Rightarrow> json \<Rightarrow> json" where
  "field_or item k d = (case map_of item k of None \<Rightarrow> d | Some v \<Rightarrow> v)"

text \<open>The event written to \<^verbatim>\<open>plan.json\<close> for a record that has the three keys.\<close>

definition persisted_event :: "dict \<Rightarrow> json" where
  "persisted_event item =
    JObj [(''summary'', the (map_of item ''summary'')),
          (''start'', JObj [(''dateTime'', the (map_of item ''start'')),
                            (''timeZone'', field_or item ''timeZone'' DEFAULT_TIMEZONE)]),
          (''end'', JObj [(''dateTime'', the (map_of item ''end'')),
                          (''timeZone'', field_or item ''timeZone'' DEFAULT_TIMEZONE)]),
          (''description'', field_or item ''description'' (JStr []))]"

text \<open>The first key whose subscript raises, and the warning printed for the record.\<close>

definition first_missing :: "dict \<Rightarrow> string" where
  "first_missing item =
    (if map_of item ''summary'' = None then ''summary''
     else if map_of item ''start'' = None then ''start'' else ''end'')"

definition dropped_warning :: "dict \<Rightarrow> printed" where
  "dropped_warning item = Missing_required_field (KeyError (first_missing item)) (JObj item)"

text \<open>The body passed to the calendar for the persisted event of a record.\<close>

definition calendar_body :: "dict \<Rightarrow> json" where
  "calendar_body item =
    JObj [(''summary'', the (map_of item ''summary'')),
          (''description'', field_or item ''description'' (JStr [])),
          (''start'', JObj [(''dateTime'', the (map_of item ''start'')),
                            (''timeZone'', field_or item ''timeZone'' DEFAULT_TIMEZONE)]),
          (''end'', JObj [(''dateTime'', the (map_of item ''end'')),
                          (''timeZone'', field_or item ''timeZone'' DEFAULT_TIMEZONE)])]"

text \<open>A calendar collaborator that hands out a service and accepts every insertion.\<close>

definition accepts_every_event :: "google_api \<Rightarrow> bool" where
  "accepts_every_event api =
    (build_service api = None \<and> (\<forall>cal body. \<exists>created. events_insert api cal body = Inr created))"

text \<open>A stream that yields the given messages and goes on as \<open>rest\<close>.\<close>

definition yields :: "message list \<Rightarrow> stream \<Rightarrow> stream" where
  "yields messages rest = foldr Yield messages rest"

text \<open>The history entries of messages received when the clock has been read \<open>n\<close> times.\<close>

definition entries_from :: "(nat \<Rightarrow> string) \<Rightarrow> nat \<Rightarrow> message list \<Rightarrow> dict list" where
  "entries_from clock n messages = map (\<lambda>(i, m). history_entry m (clock i)) (enumerate n messages)"

text \<open>A sink none of whose emits raises.\<close>

definition never_raises :: "'s sio_emit \<Rightarrow> bool" where
  "never_raises emit = (\<forall>q e. \<exists>q'. emit q e = Inr q')"

section \<open>Concrete inputs\<close>

definition fresh_world :: world where
  "fresh_world = \<lparr>plan_json = None, stdout = [], calendar = []\<rparr>"

definition accept_all :: google_api where
  "accept_all = \<lparr>build_service = None,
                 events_insert = (\<lambda>cal body. Inr [(''htmlLink'', JStr ''https://calendar.example/event'')])\<rparr>"

definition math_lesson :: dict where
  "math_lesson =
    [(''summary'', JStr ''Learn Math''),
     (''start'', JStr ''2025-07-25T08:00:00''),
     (''end'', JStr ''2025-07-25T09:30:00''),
     (''timeZone'', JStr ''Asia/Ho_Chi_Minh''),
     (''description'', JStr ''Review integrals'')]"

definition physics_lesson :: dict where
  "physics_lesson =
    [(''summary'', JStr ''Learn Physics''),
     (''start'', JStr ''2025-07-26T14:00:00''),
     (''end'', JStr ''2025-07-26T15:00:00'')]"

definition no_summary :: dict where
  "no_summary = [(''start'', JStr ''2025-07-26T08:00:00''), (''end'', JStr ''2025-07-26T09:00:00'')]"

definition no_end :: dict where
  "no_end = [(''summary'', JStr ''Learn Physics''), (''start'', JStr ''2025-07-27T08:00:00'')]"

definition empty_title :: dict where
  "empty_title =
    [(''summary'', JStr []),
     (''start'', JStr ''2025-07-25T08:00:00''),
     (''end'', JStr ''2025-07-25T08:00:00'')]"

definition planner_reply :: message where
  "planner_reply = Message (Some ''PlannerAgent'') (Some ''Which subjects do you study?'')"

definition fixed_clock :: "nat \<Rightarrow> string" where
  "fixed_clock i = ''2025-07-25T08:00:00''"

definition one_reply :: "task \<Rightarrow> stream" where
  "one_reply t = Yield planner_reply Stop"

definition failing_reply :: "task \<Rightarrow> stream" where
  "failing_reply t = Yield planner_reply (Raise (Exception ''model request failed''))"

definition offline_emit :: "unit sio_emit" where
  "offline_emit q e = Inl (Exception ''socket is not connected'')"

definition recording_emit :: "emitted list sio_emit" where
  "recording_emit q e = Inr (q @ [e])"

section \<open>Properties of save_schedule_json\<close>

lemma event_of_item_valid:
  "has_required_fields item \<Longrightarrow> event_of_item (JObj item) = Inr (persisted_event item)"
  by (auto simp: has_required_fields_def event_of_item_def persisted_event_def field_or_def)

lemma event_of_item_invalid:
  "\<not> has_required_fields item \<Longrightarrow> event_of_item (JObj item) = Inl (KeyError (first_missing item))"
  by (auto simp: has_required_fields_def event_of_item_def first_missing_def split: option.splits)

lemma collect_events_records:
  "collect_events (map JObj items) valid_events out =
    (Inr (valid_events @ map persisted_event (filter has_required_fields items)),
     out @ map dropped_warning (filter (\<lambda>item. \<not> has_required_fields item) items))"
  by (induction items arbitrary: valid_events out)
     (simp_all add: event_of_item_valid event_of_item_invalid dropped_warning_def)

lemma save_schedule_json_records:
  assumes "map_of json_data ''events'' = Some (JArr (map JObj items))"
  shows "save_schedule_json json_data w =
    (if filter has_required_fields items = []
     then (Inr NO_VALID_EVENTS,
           w\<lparr>stdout := stdout w @ map dropped_warning (filter (\<lambda>item. \<not> has_required_fields item) items)\<rparr>)
     else (Inr JSON_SAVED,
           w\<lparr>plan_json := Some (JObj [(''events'', JArr (map persisted_event (filter has_required_fields items)))]),
             stdout := stdout w @ map dropped_warning (filter (\<lambda>item. \<not> has_required_fields item) items)\<rparr>))"
  using assms by (simp add: save_schedule_json_def collect_events_records)

lemma marks_differ: "JSON_SAVED \<noteq> NO_VALID_EVENTS"
  by (simp add: JSON_SAVED_def NO_VALID_EVENTS_def CHECK_MARK_def CROSS_MARK_def)

lemma save_schedule_json_keeps_file:
  assumes "fst (save_schedule_json json_data w) \<noteq> Inr JSON_SAVED"
  shows "plan_json (snd (save_schedule_json json_data w)) = plan_json w"
  using assms
  by (auto simp: save_schedule_json_def split: sum.splits prod.splits if_splits)

text \<open>
  Claim C2, as stated, fails: the value returned for a plan with one surviving and two
  dropped records is the same constant "JSON SAVED" that is returned for a plan with
  nothing to drop, so the result reports neither a count nor how many records were
  dropped.
\<close>

theorem save_schedule_json_result_has_no_count:
  "fst (save_schedule_json [(''events'', JArr [JObj no_summary, JObj math_lesson, JObj no_end])] fresh_world)
     = Inr JSON_SAVED
   \<and> fst (save_schedule_json [(''events'', JArr [JObj math_lesson])] fresh_world)
     = Inr JSON_SAVED"
  by (simp add: save_schedule_json_def event_of_item_def no_summary_def math_lesson_def no_end_def)

text \<open>
  Claim C2, amended. For a plan whose events are records, \<^verbatim>\<open>save_schedule_json\<close>
  returns one of two constant messages: "No valid events to save." exactly when no
  record survives the loop, and then \<^verbatim>\<open>plan.json\<close> is left alone; otherwise
  "JSON SAVED", and then \<^verbatim>\<open>plan.json\<close> holds as many events as records survived. The
  dropped records are reported on standard output only, one warning per dropped record.
  In particular a plan in which every record lacks \<^verbatim>\<open>summary\<close> gets the
  "No valid events" answer.
\<close>

theorem save_schedule_json_no_valid_events_iff:
  assumes "map_of json_data ''events'' = Some (JArr (map JObj items))"
  shows "(fst (save_schedule_json json_data w) = Inr NO_VALID_EVENTS
           \<or> fst (save_schedule_json json_data w) = Inr JSON_SAVED)
       \<and> (fst (save_schedule_json json_data w) = Inr NO_VALID_EVENTS
            \<longleftrightarrow> filter has_required_fields items = [])
       \<and> (fst (save_schedule_json json_data w) = Inr NO_VALID_EVENTS
            \<longrightarrow> plan_json (snd (save_schedule_json json_data w)) = plan_json w)
       \<and> (filter has_required_fields items \<noteq> []
            \<longrightarrow> fst (save_schedule_json json_data w) = Inr JSON_SAVED
              \<and> (\<exists>events. plan_json (snd (save_schedule_json json_data w))
                            = Some (JObj [(''events'', JArr events)])
                   \<and> length events = length (filter has_required_fields items)))
       \<and> (\<exists>warnings. stdout (snd (save_schedule_json json_data w)) = stdout w @ warnings
            \<and> length warnings = length items - length (filter has_required_fields items))
       \<and> (list_all (\<lambda>item. map_of item ''summary'' = None) items
            \<longrightarrow> fst (save_schedule_json json_data w) = Inr NO_VALID_EVENTS)"
proof -
  let ?valid = "filter has_required_fields items"
  let ?dropped = "filter (\<lambda>item. \<not> has_required_fields item) items"
  note run = save_schedule_json_records [OF assms, of w]
  have count: "length ?dropped = length items - length ?valid"
    using sum_length_filter_compl [of has_required_fields items] by simp
  have no_summary: "?valid = []" if "list_all (\<lambda>item. map_of item ''summary'' = None) items"
    using that by (induction items) (simp_all add: has_required_fields_def)
  show ?thesis
  proof (cases "?valid = []")
    case True
    then show ?thesis using run count by simp
  next
    case False
    then show ?thesis using run count no_summary marks_differ by auto
  qed
qed

text \<open>
  One record with all fields between two that lack a key: saved, one event, two warnings.
  Two records without a summary: no valid events.
\<close>

theorem save_schedule_json_no_valid_events_iff_witness:
  "map_of [(''events'', JArr [JObj no_summary, JObj math_lesson, JObj no_end])] ''events''
     = Some (JArr (map JObj [no_summary, math_lesson, no_end]))
   \<and> fst (save_schedule_json [(''events'', JArr [JObj no_summary, JObj math_lesson, JObj no_end])] fresh_world)
     = Inr JSON_SAVED
   \<and> (\<exists>events. plan_json (snd (save_schedule_json
          [(''events'', JArr [JObj no_summary, JObj math_lesson, JObj no_end])] fresh_world))
        = Some (JObj [(''events'', JArr events)]) \<and> length events = 1)
   \<and> (\<exists>warnings. stdout (snd (save_schedule_json
          [(''events'', JArr [JObj no_summary, JObj math_lesson, JObj no_end])] fresh_world))
        = warnings \<and> length warnings = 2)
   \<and> fst (save_schedule_json [(''events'', JArr [JObj no_summary, JObj no_summary])] fresh_world)
     = Inr NO_VALID_EVENTS"
proof -
  have fields: "\<not> has_required_fields no_summary" "has_required_fields math_lesson"
    "\<not> has_required_fields no_end" "map_of no_summary ''summary'' = None"
    by (simp_all add: has_required_fields_def no_summary_def math_lesson_def no_end_def)
  show ?thesis
    using save_schedule_json_no_valid_events_iff
            [of "[(''events'', JArr [JObj no_summary, JObj math_lesson, JObj no_end])]"
                "[no_summary, math_lesson, no_end]" fresh_world]
          save_schedule_json_no_valid_events_iff
            [of "[(''events'', JArr [JObj no_summary, JObj no_summary])]"
                "[no_summary, no_summary]" fresh_world]
    by (simp add: fields fresh_world_def)
qed

text \<open>
  Claim C8, as stated, fails: the only record of this plan has an empty summary and an
  end equal to its start, and the plan is saved with that record in it.
\<close>

theorem save_schedule_json_keeps_empty_summary:
  "map_of empty_title ''summary'' = Some (JStr [])
   \<and> map_of empty_title ''end'' = map_of empty_title ''start''
   \<and> save_schedule_json [(''events'', JArr [JObj empty_title])] fresh_world
     = (Inr JSON_SAVED,
        fresh_world\<lparr>plan_json := Some (JObj [(''events'', JArr
          [JObj [(''summary'', JStr []),
                 (''start'', JObj [(''dateTime'', JStr ''2025-07-25T08:00:00''),
                                   (''timeZone'', JStr ''Asia/Ho_Chi_Minh'')]),
                 (''end'', JObj [(''dateTime'', JStr ''2025-07-25T08:00:00''),
                                 (''timeZone'', JStr ''Asia/Ho_Chi_Minh'')]),
                 (''description'', JStr [])]])])\<rparr>)"
  by (simp add: save_schedule_json_def event_of_item_def empty_title_def fresh_world_def
        DEFAULT_TIMEZONE_def)

text \<open>
  Claim C8, amended. A plan of records is saved exactly when at least one record has
  the keys \<^verbatim>\<open>summary\<close>, \<^verbatim>\<open>start\<close> and \<^verbatim>\<open>end\<close>, whatever their values; what is
  written is the events of the records that have them, in order, and each record lacking
  one is dropped with a printed warning. When no record has them the file is untouched.
\<close>

theorem save_schedule_json_persists_iff_required_fields:
  assumes "map_of json_data ''events'' = Some (JArr (map JObj items))"
  shows "(fst (save_schedule_json json_data w) = Inr JSON_SAVED
            \<longleftrightarrow> (\<exists>item \<in> set items. has_required_fields item))
       \<and> (fst (save_schedule_json json_data w) = Inr JSON_SAVED
            \<longrightarrow> plan_json (snd (save_schedule_json json_data w))
                = Some (JObj [(''events'',
                    JArr (map persisted_event (filter has_required_fields items)))]))
       \<and> (fst (save_schedule_json json_data w) \<noteq> Inr JSON_SAVED
            \<longrightarrow> plan_json (snd (save_schedule_json json_data w)) = plan_json w)
       \<and> stdout (snd (save_schedule_json json_data w))
           = stdout w @ map dropped_warning (filter (\<lambda>item. \<not> has_required_fields item) items)"
proof -
  note run = save_schedule_json_records [OF assms, of w]
  have some: "(filter has_required_fields items \<noteq> []) = (\<exists>item \<in> set items. has_required_fields item)"
    by (simp add: filter_empty_conv)
  show ?thesis
  proof (cases "filter has_required_fields items = []")
    case True
    then show ?thesis using run some marks_differ by auto
  next
    case False
    then show ?thesis using run some by auto
  qed
qed

theorem save_schedule_json_persists_iff_required_fields_witness:
  "map_of [(''events'', JArr [JObj no_end, JObj empty_title])] ''events''
     = Some (JArr (map JObj [no_end, empty_title]))
   \<and> fst (save_schedule_json [(''events'', JArr [JObj no_end, JObj empty_title])] fresh_world)
       = Inr JSON_SAVED
   \<and> plan_json (snd (save_schedule_json [(''events'', JArr [JObj no_end, JObj empty_title])] fresh_world))
       = Some (JObj [(''events'', JArr [persisted_event empty_title])])
   \<and> stdout (snd (save_schedule_json [(''events'', JArr [JObj no_end, JObj empty_title])] fresh_world))
       = [Missing_required_field (KeyError ''end'') (JObj no_end)]"
proof -
  have valid: "\<not> has_required_fields no_end" "has_required_fields empty_title"
    by (simp_all add: has_required_fields_def no_end_def empty_title_def)
  have missing: "first_missing no_end = ''end''"
    by (simp add: first_missing_def no_end_def)
  show ?thesis
    using save_schedule_json_persists_iff_required_fields
            [of "[(''events'', JArr [JObj no_end, JObj empty_title])]" "[no_end, empty_title]" fresh_world]
    by (simp add: valid missing dropped_warning_def fresh_world_def)
qed

text \<open>
  Claim C10. A record with \<^verbatim>\<open>summary\<close>, \<^verbatim>\<open>start\<close> and \<^verbatim>\<open>end\<close> but no
  \<^verbatim>\<open>timeZone\<close> is turned into an event whose start and end both carry the time zone
  "Asia/Ho_Chi_Minh" and whose description is the empty string when the record has none;
  a plan of records containing it is saved with that event in it. A record yields an
  event exactly when it has the three keys \<^verbatim>\<open>summary\<close>, \<^verbatim>\<open>start\<close> and \<^verbatim>\<open>end\<close>.
\<close>

theorem event_of_item_default_timezone:
  assumes "map_of item ''summary'' = Some summary"
    and "map_of item ''start'' = Some start"
    and "map_of item ''end'' = Some finish"
    and "map_of item ''timeZone'' = None"
  shows "event_of_item (JObj item)
           = Inr (JObj [(''summary'', summary),
                        (''start'', JObj [(''dateTime'', start), (''timeZone'', JStr ''Asia/Ho_Chi_Minh'')]),
                        (''end'', JObj [(''dateTime'', finish), (''timeZone'', JStr ''Asia/Ho_Chi_Minh'')]),
                        (''description'',
                           case map_of item ''description'' of None \<Rightarrow> JStr [] | Some d \<Rightarrow> d)])
       \<and> (map_of json_data ''events'' = Some (JArr (map JObj items)) \<and> item \<in> set items
            \<longrightarrow> fst (save_schedule_json json_data w) = Inr JSON_SAVED
              \<and> (\<exists>events. plan_json (snd (save_schedule_json json_data w))
                            = Some (JObj [(''events'', JArr events)])
                   \<and> JObj [(''summary'', summary),
                        (''start'', JObj [(''dateTime'', start), (''timeZone'', JStr ''Asia/Ho_Chi_Minh'')]),
                        (''end'', JObj [(''dateTime'', finish), (''timeZone'', JStr ''Asia/Ho_Chi_Minh'')]),
                        (''description'',
                           case map_of item ''description'' of None \<Rightarrow> JStr [] | Some d \<Rightarrow> d)]
                      \<in> set events))
       \<and> (\<forall>other. (\<exists>event. event_of_item (JObj other) = Inr event)
            \<longleftrightarrow> map_of other ''summary'' \<noteq> None \<and> map_of other ''start'' \<noteq> None
                \<and> map_of other ''end'' \<noteq> None)"
proof -
  let ?event = "JObj [(''summary'', summary),
                      (''start'', JObj [(''dateTime'', start), (''timeZone'', JStr ''Asia/Ho_Chi_Minh'')]),
                      (''end'', JObj [(''dateTime'', finish), (''timeZone'', JStr ''Asia/Ho_Chi_Minh'')]),
                      (''description'',
                         case map_of item ''description'' of None \<Rightarrow> JStr [] | Some d \<Rightarrow> d)]"
  have required: "has_required_fields item"
    using assms by (simp add: has_required_fields_def)
  have event: "persisted_event item = ?event"
    using assms by (simp add: persisted_event_def field_or_def DEFAULT_TIMEZONE_def)
  have first: "event_of_item (JObj item) = Inr ?event"
    using event_of_item_valid [OF required] event by simp
  have second: "fst (save_schedule_json json_data w) = Inr JSON_SAVED
      \<and> (\<exists>events. plan_json (snd (save_schedule_json json_data w))
                      = Some (JObj [(''events'', JArr events)]) \<and> ?event \<in> set events)"
    if plan: "map_of json_data ''events'' = Some (JArr (map JObj items))" and mem: "item \<in> set items"
  proof -
    have kept: "item \<in> set (filter has_required_fields items)"
      using mem required by simp
    have nonempty: "filter has_required_fields items \<noteq> []"
      using mem required by (auto simp: filter_empty_conv)
    have "?event \<in> set (map persisted_event (filter has_required_fields items))"
      using kept event by force
    then show ?thesis
      using save_schedule_json_records [OF plan, of w] nonempty by simp
  qed
  have third: "(\<exists>event. event_of_item (JObj other) = Inr event)
      \<longleftrightarrow> map_of other ''summary'' \<noteq> None \<and> map_of other ''start'' \<noteq> None
          \<and> map_of other ''end'' \<noteq> None" for other
  proof (cases "has_required_fields other")
    case True
    then show ?thesis using event_of_item_valid [OF True] by (simp add: has_required_fields_def)
  next
    case False
    then show ?thesis using event_of_item_invalid [OF False] by (simp add: has_required_fields_def)
  qed
  show ?thesis using first second third by blast
qed

theorem event_of_item_default_timezone_witness:
  "map_of physics_lesson ''summary'' = Some (JStr ''Learn Physics'')
   \<and> map_of physics_lesson ''start'' = Some (JStr ''2025-07-26T14:00:00'')
   \<and> map_of physics_lesson ''end'' = Some (JStr ''2025-07-26T15:00:00'')
   \<and> map_of physics_lesson ''timeZone'' = None
   \<and> event_of_item (JObj physics_lesson)
       = Inr (JObj [(''summary'', JStr ''Learn Physics''),
                    (''start'', JObj [(''dateTime'', JStr ''2025-07-26T14:00:00''),
                                      (''timeZone'', JStr ''Asia/Ho_Chi_Minh'')]),
                    (''end'', JObj [(''dateTime'', JStr ''2025-07-26T15:00:00''),
                                    (''timeZone'', JStr ''Asia/Ho_Chi_Minh'')]),
                    (''description'', JStr [])])
   \<and> fst (save_schedule_json [(''events'', JArr [JObj physics_lesson])] fresh_world) = Inr JSON_SAVED"
proof -
  have fields: "map_of physics_lesson ''summary'' = Some (JStr ''Learn Physics'')"
    "map_of physics_lesson ''start'' = Some (JStr ''2025-07-26T14:00:00'')"
    "map_of physics_lesson ''end'' = Some (JStr ''2025-07-26T15:00:00'')"
    "map_of physics_lesson ''timeZone'' = None"
    "map_of physics_lesson ''description'' = None"
    by (simp_all add: physics_lesson_def)
  show ?thesis
    using event_of_item_default_timezone [OF fields(1-4),
            of "[(''events'', JArr [JObj physics_lesson])]" "[physics_lesson]" fresh_world]
    by (simp add: fields)
qed

section \<open>Properties of load_schedule_json\<close>

lemma calendar_event_persisted: "calendar_event (persisted_event item) = Inr (calendar_body item)"
  by (simp add: calendar_event_def persisted_event_def calendar_body_def)

lemma insert_events_accepted:
  assumes "\<forall>cal body. \<exists>created. events_insert api cal body = Inr created"
  shows "fst (insert_events api (map persisted_event items) w) = None
       \<and> calendar (snd (insert_events api (map persisted_event items) w))
           = calendar w @ map calendar_body items
       \<and> plan_json (snd (insert_events api (map persisted_event items) w)) = plan_json w"
proof (induction items arbitrary: w)
  case Nil
  show ?case by simp
next
  case (Cons item items)
  obtain created where "events_insert api (calendar w) (calendar_body item) = Inr created"
    using assms by blast
  then show ?case using Cons.IH by (simp add: calendar_event_persisted)
qed

lemma load_schedule_json_persisted:
  assumes "plan_json w = Some (JObj [(''events'', JArr (map persisted_event items))])"
    and "items \<noteq> []" and "accepts_every_event api"
  shows "fst (load_schedule_json api w) = Inr PLAN_SYNCED
       \<and> calendar (snd (load_schedule_json api w)) = calendar w @ map calendar_body items
       \<and> plan_json (snd (load_schedule_json api w)) = plan_json w"
proof -
  have acc: "\<forall>cal body. \<exists>created. events_insert api cal body = Inr created"
    and auth: "build_service api = None"
    using assms(3) by (simp_all add: accepts_every_event_def)
  note ins = insert_events_accepted [OF acc, of items w]
  obtain r w' where run: "insert_events api (map persisted_event items) w = (r, w')"
    by (cases "insert_events api (map persisted_event items) w")
  with ins have "r = None" "calendar w' = calendar w @ map calendar_body items"
    "plan_json w' = plan_json w" by simp_all
  then show ?thesis
    using assms(1,2) auth run
    by (simp add: load_schedule_json_def create_events_from_plan_def)
qed

text \<open>
  Claim C3, as stated, fails: with no \<^verbatim>\<open>plan.json\<close> the function does not return a
  value, it raises \<^verbatim>\<open>FileNotFoundError\<close> (the \<open>Inl\<close> of the model).
\<close>

theorem load_schedule_json_missing_plan_raises:
  "fst (load_schedule_json accept_all fresh_world) = Inl (FileNotFoundError PLAN_NOT_FOUND)"
  by (simp add: load_schedule_json_def fresh_world_def)

text \<open>
  Claim C3, amended. When \<^verbatim>\<open>plan.json\<close> does not exist, \<^verbatim>\<open>load_schedule_json\<close> raises
  \<^verbatim>\<open>FileNotFoundError\<close> with the "plan.json file not found." message, before it
  touches the calendar: the world is unchanged. It still does so after a call of
  \<^verbatim>\<open>save_schedule_json\<close> that did not answer "JSON SAVED".
\<close>

theorem load_schedule_json_plan_not_found:
  assumes "plan_json w = None"
  shows "load_schedule_json api w = (Inl (FileNotFoundError PLAN_NOT_FOUND), w)
       \<and> (fst (save_schedule_json json_data w) \<noteq> Inr JSON_SAVED
            \<longrightarrow> fst (load_schedule_json api (snd (save_schedule_json json_data w)))
                = Inl (FileNotFoundError PLAN_NOT_FOUND))"
  using assms save_schedule_json_keeps_file [of json_data w]
  by (auto simp: load_schedule_json_def)

theorem load_schedule_json_plan_not_found_witness:
  "plan_json fresh_world = None
   \<and> load_schedule_json accept_all fresh_world = (Inl (FileNotFoundError PLAN_NOT_FOUND), fresh_world)
   \<and> fst (save_schedule_json [(''events'', JArr [JObj no_summary])] fresh_world) = Inr NO_VALID_EVENTS
   \<and> fst (load_schedule_json accept_all
            (snd (save_schedule_json [(''events'', JArr [JObj no_summary])] fresh_world)))
       = Inl (FileNotFoundError PLAN_NOT_FOUND)"
proof -
  have none: "plan_json fresh_world = None"
    by (simp add: fresh_world_def)
  have rejected: "fst (save_schedule_json [(''events'', JArr [JObj no_summary])] fresh_world)
                    = Inr NO_VALID_EVENTS"
    by (simp add: save_schedule_json_def event_of_item_def no_summary_def)
  show ?thesis
    using load_schedule_json_plan_not_found
            [OF none, of accept_all "[(''events'', JArr [JObj no_summary])]"] none rejected marks_differ
    by simp
qed

section \<open>Persist, then sync\<close>



text \<open>
  Claim C5. Saving a plan after any earlier save succeeds again and leaves in
  \<^verbatim>\<open>plan.json\<close> the events of the later plan only, the same content as if the earlier
  save had not happened; saving the same plan twice leaves what saving it once leaves.
  A sync that follows creates the events of the later plan and no others.
\<close>

theorem save_schedule_json_overwrites:
  assumes "map_of json_data ''events'' = Some (JArr (map JObj items))"
    and "fst (save_schedule_json json_data w) = Inr JSON_SAVED"
  shows "fst (save_schedule_json json_data (snd (save_schedule_json earlier w))) = Inr JSON_SAVED
       \<and> plan_json (snd (save_schedule_json json_data (snd (save_schedule_json earlier w))))
           = Some (JObj [(''events'', JArr (map persisted_event (filter has_required_fields items)))])
       \<and> plan_json (snd (save_schedule_json json_data (snd (save_schedule_json earlier w))))
           = plan_json (snd (save_schedule_json json_data w))
       \<and> plan_json (snd (save_schedule_json json_data (snd (save_schedule_json json_data w))))
           = plan_json (snd (save_schedule_json json_data w))
       \<and> (accepts_every_event api \<longrightarrow>
            fst (load_schedule_json api
                  (snd (save_schedule_json json_data (snd (save_schedule_json earlier w)))))
              = Inr PLAN_SYNCED
            \<and> calendar (snd (load_schedule_json api
                  (snd (save_schedule_json json_data (snd (save_schedule_json earlier w))))))
              = calendar (snd (save_schedule_json earlier w))
                  @ map calendar_body (filter has_required_fields items))"
proof -
  let ?valid = "filter has_required_fields items"
  let ?doc = "Some (JObj [(''events'', JArr (map persisted_event ?valid))])"
  have valid: "?valid \<noteq> []"
    using save_schedule_json_records [OF assms(1), of w] assms(2) marks_differ
    by (auto split: if_splits)
  have again: "fst (save_schedule_json json_data v) = Inr JSON_SAVED
             \<and> plan_json (snd (save_schedule_json json_data v)) = ?doc
             \<and> calendar (snd (save_schedule_json json_data v)) = calendar v" for v
    using save_schedule_json_records [OF assms(1), of v] valid by simp
  let ?w2 = "snd (save_schedule_json json_data (snd (save_schedule_json earlier w)))"
  have sync: "fst (load_schedule_json api ?w2) = Inr PLAN_SYNCED
            \<and> calendar (snd (load_schedule_json api ?w2))
                = calendar (snd (save_schedule_json earlier w)) @ map calendar_body ?valid"
    if "accepts_every_event api"
    using load_schedule_json_persisted [OF _ valid that, of ?w2] again by simp
  show ?thesis using again sync by simp
qed

theorem save_schedule_json_overwrites_witness:
  "map_of [(''events'', JArr [JObj physics_lesson])] ''events'' = Some (JArr (map JObj [physics_lesson]))
   \<and> fst (save_schedule_json [(''events'', JArr [JObj physics_lesson])] fresh_world) = Inr JSON_SAVED
   \<and> accepts_every_event accept_all
   \<and> plan_json (snd (save_schedule_json [(''events'', JArr [JObj physics_lesson])]
        (snd (save_schedule_json [(''events'', JArr [JObj math_lesson])] fresh_world))))
       = Some (JObj [(''events'', JArr [persisted_event physics_lesson])])
   \<and> calendar (snd (load_schedule_json accept_all
        (snd (save_schedule_json [(''events'', JArr [JObj physics_lesson])]
          (snd (save_schedule_json [(''events'', JArr [JObj math_lesson])] fresh_world))))))
       = [calendar_body physics_lesson]"
proof -
  let ?plan = "[(''events'', JArr [JObj physics_lesson])]"
  let ?earlier = "[(''events'', JArr [JObj math_lesson])]"
  have plan: "map_of ?plan ''events'' = Some (JArr (map JObj [physics_lesson]))"
    by simp
  have valid: "has_required_fields physics_lesson"
    by (simp add: has_required_fields_def physics_lesson_def)
  have saved: "fst (save_schedule_json ?plan fresh_world) = Inr JSON_SAVED"
    using save_schedule_json_records [OF plan, of fresh_world] by (simp add: valid)
  have api: "accepts_every_event accept_all"
    by (simp add: accepts_every_event_def accept_all_def)
  have earlier: "map_of ?earlier ''events'' = Some (JArr (map JObj [math_lesson]))"
    by simp
  have before: "calendar (snd (save_schedule_json ?earlier fresh_world)) = []"
    by (simp add: save_schedule_json_records [OF earlier] fresh_world_def)
  show ?thesis
    using save_schedule_json_overwrites [OF plan saved, of ?earlier accept_all] plan saved api before
    by (simp add: valid)
qed

section \<open>Properties of the conversation loop\<close>

lemma append_messages_yields:
  "append_messages clock (yields messages rest) history
     = append_messages clock rest (history @ entries_from clock (length history) messages)"
  by (induction messages arbitrary: history) (simp_all add: yields_def entries_from_def)

lemma stream_messages_no_sink:
  "stream_messages None clock user_sid task_id s history q
     = (fst (append_messages clock s history), snd (append_messages clock s history), q)"
  by (induction s arbitrary: history) (simp_all add: Let_def)

lemma stream_messages_quiet_sink:
  assumes "never_raises emit"
  shows "\<exists>q'. stream_messages (Some emit) clock user_sid task_id s history q
     = (fst (append_messages clock s history), snd (append_messages clock s history), q')"
proof (induction s arbitrary: history q)
  case Stop
  show ?case by simp
next
  case (Raise e)
  show ?case by simp
next
  case (Yield message rest)
  obtain q1 where "emit q (stream_payload user_sid task_id message) = Inr q1"
    using assms unfolding never_raises_def by blast
  then show ?case using Yield.IH by (simp add: Let_def)
qed

lemma run_conversation_with_socket_no_sink:
  "run_conversation_with_socket run_stream clock user_message user_sid task_id None q
     = (case append_messages clock (run_stream (TextMessage user_message ''User'')) [] of
          (None, history) \<Rightarrow> (Inr (completed [(''success'', JBool True)] history), q)
        | (Some (Exception msg), history) \<Rightarrow> (Inr (failed msg history), q)
        | (Some (BaseException msg), history) \<Rightarrow> (Inl (BaseException msg), q))"
  by (simp add: run_conversation_with_socket_def try_conversation_def stream_messages_no_sink
        split: prod.splits option.splits raised.splits)

lemma run_conversation_with_socket_quiet_sink:
  assumes "never_raises emit"
  shows "fst (run_conversation_with_socket run_stream clock user_message user_sid task_id (Some emit) q)
     = (case append_messages clock (run_stream (TextMessage user_message ''User'')) [] of
          (None, history) \<Rightarrow> Inr (completed [(''success'', JBool True)] history)
        | (Some (Exception msg), history) \<Rightarrow> Inr (failed msg history)
        | (Some (BaseException msg), history) \<Rightarrow> Inl (BaseException msg))"
proof -
  let ?s = "run_stream (TextMessage user_message ''User'')"
  obtain q1 where loop: "stream_messages (Some emit) clock user_sid task_id ?s [] q
      = (fst (append_messages clock ?s []), snd (append_messages clock ?s []), q1)"
    using stream_messages_quiet_sink [OF assms] by blast
  obtain r history where app: "append_messages clock ?s [] = (r, history)"
    by (cases "append_messages clock ?s []")
  obtain q2 where notice: "emit q1 (complete_payload user_sid task_id) = Inr q2"
    using assms unfolding never_raises_def by blast
  have err: "\<exists>q3. emit q1 (error_payload user_sid task_id msg) = Inr q3" for msg
    using assms unfolding never_raises_def by blast
  show ?thesis
  proof (cases r)
    case None
    then show ?thesis
      using loop app notice err
      by (auto simp: run_conversation_with_socket_def try_conversation_def)
  next
    case (Some e)
    then show ?thesis
    proof (cases e)
      case (Exception msg)
      obtain q3 where "emit q1 (error_payload user_sid task_id msg) = Inr q3"
        using err by blast
      then show ?thesis
        using loop app Some Exception
        by (simp add: run_conversation_with_socket_def try_conversation_def)
    next
      case (BaseException msg)
      then show ?thesis
        using loop app Some
        by (simp add: run_conversation_with_socket_def try_conversation_def)
    qed
  qed
qed

text \<open>
  Claim C7. When the team's stream raises an \<^verbatim>\<open>Exception\<close> after some messages,
  \<^verbatim>\<open>run_conversation\<close> returns (it does not raise) the dict with \<^verbatim>\<open>error\<close> set to the
  text of the exception and \<^verbatim>\<open>conversation_history\<close> holding one entry per message
  received before it, in order; nothing of the stream is read past the exception. So
  does \<^verbatim>\<open>run_conversation_with_socket\<close>, without a sink and with a sink whose emits do
  not raise.
\<close>

theorem run_conversation_captures_exception:
  "(run_stream (Text user_message) = yields messages (Raise (Exception msg))
      \<longrightarrow> run_conversation run_stream clock user_message
          = Inr [(''error'', JStr msg),
                 (''conversation_history'', JArr (map JObj (entries_from clock 0 messages)))])
   \<and> (run_stream (TextMessage user_message ''User'') = yields messages (Raise (Exception msg))
      \<longrightarrow> run_conversation_with_socket run_stream clock user_message user_sid task_id None q
          = (Inr [(''error'', JStr msg),
                  (''conversation_history'', JArr (map JObj (entries_from clock 0 messages)))], q))
   \<and> (run_stream (TextMessage user_message ''User'') = yields messages (Raise (Exception msg))
        \<and> never_raises emit
      \<longrightarrow> fst (run_conversation_with_socket run_stream clock user_message user_sid task_id (Some emit) q)
          = Inr [(''error'', JStr msg),
                 (''conversation_history'', JArr (map JObj (entries_from clock 0 messages)))])"
  by (simp add: run_conversation_def run_conversation_with_socket_no_sink
        run_conversation_with_socket_quiet_sink append_messages_yields failed_def)

theorem run_conversation_captures_exception_witness:
  "failing_reply (Text ''plan my week'') = yields [planner_reply] (Raise (Exception ''model request failed''))
   \<and> failing_reply (TextMessage ''plan my week'' ''User'')
       = yields [planner_reply] (Raise (Exception ''model request failed''))
   \<and> never_raises recording_emit
   \<and> run_conversation failing_reply fixed_clock ''plan my week''
       = Inr [(''error'', JStr ''model request failed''),
              (''conversation_history'',
                 JArr [JObj [(''agent'', JStr ''PlannerAgent''),
                             (''content'', JStr ''Which subjects do you study?''),
                             (''timestamp'', JStr ''2025-07-25T08:00:00''),
                             (''type'', JStr ''message'')]])]
   \<and> fst (run_conversation_with_socket failing_reply fixed_clock ''plan my week'' ''sid-1'' ''task-1''
            (Some recording_emit) [])
       = Inr [(''error'', JStr ''model request failed''),
              (''conversation_history'',
                 JArr [JObj [(''agent'', JStr ''PlannerAgent''),
                             (''content'', JStr ''Which subjects do you study?''),
                             (''timestamp'', JStr ''2025-07-25T08:00:00''),
                             (''type'', JStr ''message'')]])]"
proof -
  have quiet: "never_raises recording_emit"
    by (simp add: never_raises_def recording_emit_def)
  show ?thesis
    using run_conversation_captures_exception
            [where run_stream = failing_reply and user_message = "''plan my week''"
               and messages = "[planner_reply]" and msg = "''model request failed''"
               and clock = fixed_clock and user_sid = "''sid-1''" and task_id = "''task-1''"
               and emit = recording_emit and q = "[]"] quiet
    by (simp add: failing_reply_def yields_def entries_from_def history_entry_def planner_reply_def
          fixed_clock_def)
qed

text \<open>
  Claim C9, as stated, fails: with a sink whose emit raises, the method lets that
  exception out, while the same stream without a sink gives the completed result.
\<close>

theorem failing_sink_changes_result:
  "fst (run_conversation_with_socket one_reply fixed_clock ''plan my week'' ''sid-1'' ''task-1''
          (Some offline_emit) ())
     = Inl (Exception ''socket is not connected'')
   \<and> fst (run_conversation_with_socket one_reply fixed_clock ''plan my week'' ''sid-1'' ''task-1''
          None ())
     = Inr (completed [(''success'', JBool True)] [history_entry planner_reply ''2025-07-25T08:00:00''])"
  by (simp add: run_conversation_with_socket_def try_conversation_def one_reply_def offline_emit_def
        planner_reply_def fixed_clock_def)

text \<open>
  Claim C9, amended. For every stream, a run of \<^verbatim>\<open>run_conversation_with_socket\<close> with a
  sink none of whose emits raises returns exactly what the run without a sink returns
  (the same dict, history included, or the same escaping exception); without a sink
  nothing is emitted.
\<close>

theorem sink_that_never_raises_is_unobservable:
  assumes "never_raises emit"
  shows "fst (run_conversation_with_socket run_stream clock user_message user_sid task_id (Some emit) q)
           = fst (run_conversation_with_socket run_stream clock user_message user_sid task_id None q)
       \<and> snd (run_conversation_with_socket run_stream clock user_message user_sid task_id None q) = q"
  using run_conversation_with_socket_quiet_sink [OF assms]
  by (simp add: run_conversation_with_socket_no_sink split: prod.splits option.splits raised.splits)

theorem sink_that_never_raises_is_unobservable_witness:
  "never_raises recording_emit
   \<and> fst (run_conversation_with_socket one_reply fixed_clock ''plan my week'' ''sid-1'' ''task-1''
          (Some recording_emit) [])
     = fst (run_conversation_with_socket one_reply fixed_clock ''plan my week'' ''sid-1'' ''task-1''
          None [])
   \<and> fst (run_conversation_with_socket one_reply fixed_clock ''plan my week'' ''sid-1'' ''task-1''
          (Some recording_emit) [])
     = Inr (completed [(''success'', JBool True)] [history_entry planner_reply ''2025-07-25T08:00:00''])
   \<and> snd (run_conversation_with_socket one_reply fixed_clock ''plan my week'' ''sid-1'' ''task-1''
          (Some recording_emit) [])
     = [stream_payload ''sid-1'' ''task-1'' planner_reply, complete_payload ''sid-1'' ''task-1'']"
proof -
  have quiet: "never_raises recording_emit"
    by (simp add: never_raises_def recording_emit_def)
  show ?thesis
    using sink_that_never_raises_is_unobservable [OF quiet, of one_reply fixed_clock
            "''plan my week''" "''sid-1''" "''task-1''" "[]"] quiet
    by (simp add: run_conversation_with_socket_def try_conversation_def one_reply_def
          recording_emit_def planner_reply_def fixed_clock_def)
qed

end
